theory Spec2Isabelle
  imports Complex_Main "HOL-Library.AList"
begin

section \<open>The custom object resource of the commercetools provider\<close>

text \<open>
  A shallow embedding of \<^verbatim>\<open>commercetools/resource_custom_object.go\<close>: the four handlers
  \<^verbatim>\<open>resourceCustomObjectCreate\<close>, \<^verbatim>\<open>resourceCustomObjectRead\<close>,
  \<^verbatim>\<open>resourceCustomObjectUpdate\<close>, \<^verbatim>\<open>resourceCustomObjectDelete\<close> and the helper
  \<^verbatim>\<open>_decodeCustomObjectValue\<close>. The handlers run against three collaborators that are
  not part of the file: the resource data of the plugin framework, the client of the
  remote store and the mutex table \<^verbatim>\<open>ctMutexKV\<close>. Each of them is made explicit: the
  resource data is a record, the client is a record of three functions over a store state
  of any type, and the mutex table is the set of keys that are held. Every remote call,
  lock operation and log line of a handler is appended to a trace, so that the order of
  the effects can be stated.
\<close>

subsection \<open>JSON documents and the value decoder\<close>

text \<open>
  What \<^verbatim>\<open>encoding/json\<close> decodes into an \<^verbatim>\<open>interface{}\<close>: \<^verbatim>\<open>nil\<close>, a bool, a
  \<^verbatim>\<open>float64\<close>, a string, a slice or a map. The members of an object are kept in the
  order of the text.
\<close>

datatype json =
    JNull
  | JBool bool
  | JNumber real
  | JString string
  | JArray "json list"
  | JObject "(string \<times> json) list"

text \<open>
  A Go \<^verbatim>\<open>map[string]interface{}\<close>: \<open>None\<close> is the nil map, \<open>Some []\<close> the empty map
  that \<^verbatim>\<open>make\<close> returns. Keys are unique; storing under a key that is present replaces
  its value.
\<close>

type_synonym go_map = "(string \<times> json) list option"

datatype unmarshal_error = SyntaxError | UnmarshalTypeError

text \<open>
  \<^verbatim>\<open>json.Unmarshal(text, &data)\<close> for a \<open>data\<close> of type \<^verbatim>\<open>map[string]interface{}\<close>.
  The scanner of \<^verbatim>\<open>encoding/json\<close> is the parameter \<open>parse\<close> (\<open>None\<close> for a text that
  is not well-formed JSON). Unmarshal checks the whole text first, so a syntax error leaves
  \<open>data\<close> as it was; \<^verbatim>\<open>null\<close> sets the map to nil; an object stores its members into
  the map (allocating one if it is nil); any other JSON value cannot be stored in a map:
  an \<^verbatim>\<open>UnmarshalTypeError\<close> is returned and \<open>data\<close> is left as it was.
\<close>

definition json_Unmarshal :: "(string \<Rightarrow> json option) \<Rightarrow> string \<Rightarrow> go_map \<Rightarrow> go_map \<times> unmarshal_error option" where
  "json_Unmarshal parse text data =
     (case parse text of
        None \<Rightarrow> (data, Some SyntaxError)
      | Some JNull \<Rightarrow> (None, None)
      | Some (JObject members) \<Rightarrow>
          (Some (fold (\<lambda>(k, v) m. AList.update k v m) members
                   (case data of None \<Rightarrow> [] | Some m \<Rightarrow> m)), None)
      | Some _ \<Rightarrow> (data, Some UnmarshalTypeError))"

text \<open>
  \<^verbatim>\<open>_decodeCustomObjectValue\<close>: the map is made empty, Unmarshal fills it, and the error
  that Unmarshal returns is dropped.
\<close>

definition decodeCustomObjectValue :: "(string \<Rightarrow> json option) \<Rightarrow> string \<Rightarrow> go_map" where
  "decodeCustomObjectValue parse v =
     (let data = Some [] in fst (json_Unmarshal parse v data))"

subsection \<open>Errors\<close>

text \<open>
  The Go \<^verbatim>\<open>error\<close> values the handlers see: an \<^verbatim>\<open>ErrorResponse\<close> of the client
  library with its \<^verbatim>\<open>StatusCode\<close> and \<^verbatim>\<open>Message\<close>, any other error, and the error
  that \<^verbatim>\<open>fmt.Errorf\<close> builds with the verb \<^verbatim>\<open>%w\<close>: its text, and the error it wraps.
\<close>

datatype error =
    ErrorResponse int string
  | OtherError string
  | WrapError string error

fun Error_text :: "error \<Rightarrow> string" where
  "Error_text (ErrorResponse StatusCode Message) = Message"
| "Error_text (OtherError msg) = msg"
| "Error_text (WrapError msg err) = msg"

text \<open>The two calls of \<^verbatim>\<open>fmt.Errorf\<close> in the delete handler.\<close>

definition could_not_get :: "string \<Rightarrow> string \<Rightarrow> error \<Rightarrow> error" where
  "could_not_get container key err =
     WrapError (''could not get custom object with container '' @ container @
                '' and key '' @ key @ '': '' @ Error_text err) err"

definition could_not_delete :: "string \<Rightarrow> string \<Rightarrow> error \<Rightarrow> error" where
  "could_not_delete container key err =
     WrapError (''could not delete custom object with container '' @ container @
                '' and key '' @ key @ '': '' @ Error_text err) err"

text \<open>
  How a handler ends: it returns \<^verbatim>\<open>nil\<close>, it returns an error, or it panics (Go
  dereferences a nil pointer).
\<close>

datatype panic = NilPointerDereference

datatype outcome = ReturnNil | ReturnErr error | Panic panic

subsection \<open>The remote objects and the client\<close>

record CustomObjectDraft =
  Draft_Container :: string
  Draft_Key :: string
  Draft_Value :: go_map
  Draft_Version :: int

record CustomObject =
  ID :: string
  Container :: string
  Key :: string
  Value :: json
  Version :: int

text \<open>
  The three calls of the client that the handlers use, over a store state \<open>'s\<close>. A call
  returns a pointer and an error; the handlers test the error first, so the result is
  the error, or else the pointer (\<open>None\<close> for nil).
\<close>

record 's client =
  CustomObjectCreate ::
    "CustomObjectDraft \<Rightarrow> 's \<Rightarrow> (error + CustomObject option) \<times> 's"
  CustomObjectGetWithContainerAndKey ::
    "string \<Rightarrow> string \<Rightarrow> 's \<Rightarrow> (error + CustomObject option) \<times> 's"
  CustomObjectDeleteWithContainerAndKey ::
    "string \<Rightarrow> string \<Rightarrow> int \<Rightarrow> bool \<Rightarrow> 's \<Rightarrow> (error + CustomObject option) \<times> 's"

text \<open>
  What a handler is given besides the resource data: the client (\<^verbatim>\<open>getClient(m)\<close>),
  the scanner of \<^verbatim>\<open>encoding/json\<close> and the helper \<^verbatim>\<open>stringFormatObject\<close>, which is
  declared in another file of the package.
\<close>

record 's provider =
  getClient :: "'s client"
  json_scan :: "string \<Rightarrow> json option"
  stringFormatObject :: "CustomObject \<Rightarrow> string"

subsection \<open>The resource data\<close>

text \<open>
  The schema of the resource: \<^verbatim>\<open>container\<close>, \<^verbatim>\<open>key\<close> and \<^verbatim>\<open>value\<close> are of
  \<^verbatim>\<open>TypeString\<close>, \<^verbatim>\<open>version\<close> is of \<^verbatim>\<open>TypeInt\<close>.
\<close>

record attributes =
  attr_container :: string
  attr_key :: string
  attr_value :: string
  attr_version :: int

text \<open>
  \<^verbatim>\<open>schema.ResourceData\<close>: the resource identifier, the attributes of the last known
  state (\<open>rd_state\<close>) and the attributes that \<^verbatim>\<open>d.Get\<close> reads and \<^verbatim>\<open>d.Set\<close> writes
  (\<open>rd_attrs\<close>: the planned values, then whatever the handler has set).
\<close>

record ResourceData =
  rd_id :: string
  rd_state :: attributes
  rd_attrs :: attributes

definition SetId :: "ResourceData \<Rightarrow> string \<Rightarrow> ResourceData" where
  "SetId d v = d\<lparr>rd_id := v\<rparr>"

definition Get_container :: "ResourceData \<Rightarrow> string" where
  "Get_container d = attr_container (rd_attrs d)"

definition Get_key :: "ResourceData \<Rightarrow> string" where
  "Get_key d = attr_key (rd_attrs d)"

definition Get_value :: "ResourceData \<Rightarrow> string" where
  "Get_value d = attr_value (rd_attrs d)"

definition Get_version :: "ResourceData \<Rightarrow> int" where
  "Get_version d = attr_version (rd_attrs d)"

text \<open>\<^verbatim>\<open>d.HasChange\<close>: the planned value differs from the one of the last known state.\<close>

definition HasChange_container :: "ResourceData \<Rightarrow> bool" where
  "HasChange_container d = (attr_container (rd_state d) \<noteq> attr_container (rd_attrs d))"

definition HasChange_key :: "ResourceData \<Rightarrow> bool" where
  "HasChange_key d = (attr_key (rd_state d) \<noteq> attr_key (rd_attrs d))"

definition Set_container :: "ResourceData \<Rightarrow> string \<Rightarrow> ResourceData" where
  "Set_container d v = d\<lparr>rd_attrs := (rd_attrs d)\<lparr>attr_container := v\<rparr>\<rparr>"

definition Set_key :: "ResourceData \<Rightarrow> string \<Rightarrow> ResourceData" where
  "Set_key d v = d\<lparr>rd_attrs := (rd_attrs d)\<lparr>attr_key := v\<rparr>\<rparr>"

definition Set_version :: "ResourceData \<Rightarrow> int \<Rightarrow> ResourceData" where
  "Set_version d v = d\<lparr>rd_attrs := (rd_attrs d)\<lparr>attr_version := v\<rparr>\<rparr>"

text \<open>
  \<^verbatim>\<open>d.Set("value", v)\<close> for a \<open>v\<close> of type \<^verbatim>\<open>interface{}\<close>. The field is of
  \<^verbatim>\<open>TypeString\<close>, and \<^verbatim>\<open>Set\<close> returns an error when the value is not of the type of
  the field: a Go string is stored, nil stores the empty string, and for a bool, a
  number, a slice or a map the error is returned and the field stays as it was. The
  handlers never look at what \<^verbatim>\<open>Set\<close> returns, so only the resource data is modelled.
\<close>

definition Set_value :: "ResourceData \<Rightarrow> json \<Rightarrow> ResourceData" where
  "Set_value d v =
     (case v of
        JString s \<Rightarrow> d\<lparr>rd_attrs := (rd_attrs d)\<lparr>attr_value := s\<rparr>\<rparr>
      | JNull \<Rightarrow> d\<lparr>rd_attrs := (rd_attrs d)\<lparr>attr_value := ''''\<rparr>\<rparr>
      | _ \<Rightarrow> d)"

subsection \<open>The world of a handler\<close>

datatype event =
    CallCreate CustomObjectDraft
  | CallGet string string
  | CallDelete string string int bool
  | Lock string
  | Unlock string
  | LogLine string

text \<open>
  The state a handler runs in: the remote store, the keys of \<^verbatim>\<open>ctMutexKV\<close> that are
  held, and the trace of what has been done so far, oldest first.
\<close>

record 's world =
  remote :: 's
  ctMutexKV :: "string set"
  trace :: "event list"

definition emit :: "event \<Rightarrow> 's world \<Rightarrow> 's world" where
  "emit ev w = w\<lparr>trace := trace w @ [ev]\<rparr>"

definition log_Print :: "string \<Rightarrow> 's world \<Rightarrow> 's world" where
  "log_Print msg w = emit (LogLine msg) w"

definition client_Create ::
  "'s provider \<Rightarrow> CustomObjectDraft \<Rightarrow> 's world \<Rightarrow> (error + CustomObject option) \<times> 's world" where
  "client_Create m draft w =
     (let (r, s) = CustomObjectCreate (getClient m) draft (remote w)
      in (r, emit (CallCreate draft) (w\<lparr>remote := s\<rparr>)))"

definition client_Get ::
  "'s provider \<Rightarrow> string \<Rightarrow> string \<Rightarrow> 's world \<Rightarrow> (error + CustomObject option) \<times> 's world" where
  "client_Get m container key w =
     (let (r, s) = CustomObjectGetWithContainerAndKey (getClient m) container key (remote w)
      in (r, emit (CallGet container key) (w\<lparr>remote := s\<rparr>)))"

definition client_Delete ::
  "'s provider \<Rightarrow> string \<Rightarrow> string \<Rightarrow> int \<Rightarrow> bool \<Rightarrow> 's world \<Rightarrow>
     (error + CustomObject option) \<times> 's world" where
  "client_Delete m container key version force w =
     (let (r, s) = CustomObjectDeleteWithContainerAndKey (getClient m) container key version force (remote w)
      in (r, emit (CallDelete container key version force) (w\<lparr>remote := s\<rparr>)))"

text \<open>
  \<^verbatim>\<open>ctMutexKV.Lock\<close> waits until the key is free: where it is held, the caller does not
  go on (\<open>None\<close>). \<^verbatim>\<open>ctMutexKV.Unlock\<close> frees the key.
\<close>

definition mutex_Lock :: "string \<Rightarrow> 's world \<Rightarrow> 's world option" where
  "mutex_Lock k w =
     (if k \<in> ctMutexKV w then None
      else Some (emit (Lock k) (w\<lparr>ctMutexKV := insert k (ctMutexKV w)\<rparr>)))"

definition mutex_Unlock :: "string \<Rightarrow> 's world \<Rightarrow> 's world" where
  "mutex_Unlock k w = emit (Unlock k) (w\<lparr>ctMutexKV := ctMutexKV w - {k}\<rparr>)"

subsection \<open>The handlers\<close>

text \<open>
  \<^verbatim>\<open>resourceCustomObjectCreate\<close>. The draft has no \<^verbatim>\<open>Version\<close>: the field keeps the
  zero value of a Go int.
\<close>

definition resourceCustomObjectCreate ::
  "'s provider \<Rightarrow> ResourceData \<Rightarrow> 's world \<Rightarrow> outcome \<times> ResourceData \<times> 's world" where
  "resourceCustomObjectCreate m d w =
     (let v = decodeCustomObjectValue (json_scan m) (Get_value d);
          draft = \<lparr>Draft_Container = Get_container d, Draft_Key = Get_key d,
                   Draft_Value = v, Draft_Version = 0\<rparr>;
          (r, w1) = client_Create m draft w
      in case r of
           Inl err \<Rightarrow> (ReturnErr err, d, w1)
         | Inr None \<Rightarrow> (Panic NilPointerDereference, d, w1)
         | Inr (Some customObject) \<Rightarrow>
             (ReturnNil, Set_version (SetId d (ID customObject)) (Version customObject), w1))"

text \<open>
  \<^verbatim>\<open>resourceCustomObjectRead\<close>. The type assertion \<^verbatim>\<open>err.(commercetools.ErrorResponse)\<close>
  holds for an \<open>ErrorResponse\<close> only, not for an error that wraps one.
\<close>

definition reading_message :: "string \<Rightarrow> string \<Rightarrow> string" where
  "reading_message container key =
     ''[DEBUG] Reading custom object from commercetools with following values'' @ [CHR 0x0A] @
     '' Container: '' @ container @ '' '' @ [CHR 0x0A] @ '' Key: '' @ key"

definition resourceCustomObjectRead ::
  "'s provider \<Rightarrow> ResourceData \<Rightarrow> 's world \<Rightarrow> outcome \<times> ResourceData \<times> 's world" where
  "resourceCustomObjectRead m d w =
     (let container = Get_container d;
          key = Get_key d;
          w0 = log_Print (reading_message container key) w;
          (r, w1) = client_Get m container key w0
      in case r of
           Inl err \<Rightarrow>
             (case err of
                ErrorResponse StatusCode Message \<Rightarrow>
                  if StatusCode = 404 then (ReturnNil, SetId d '''', w1)
                  else (ReturnErr err, d, w1)
              | _ \<Rightarrow> (ReturnErr err, d, w1))
         | Inr None \<Rightarrow>
             (ReturnNil, SetId d '''', log_Print ''[DEBUG] No custom object found'' w1)
         | Inr (Some customObject) \<Rightarrow>
             (let w2 = log_Print ''[DEBUG] Found following custom object:'' w1;
                  w3 = log_Print (stringFormatObject m customObject) w2;
                  d1 = Set_container d (Container customObject);
                  d2 = Set_key d1 (Key customObject);
                  d3 = Set_value d2 (Value customObject);
                  d4 = Set_version d3 (Version customObject)
              in (ReturnNil, d4, w3)))"

text \<open>
  \<^verbatim>\<open>resourceCustomObjectUpdate\<close>. In the first branch the three arguments of the delete
  call are read with \<^verbatim>\<open>d.Get\<close> after \<^verbatim>\<open>d.SetId\<close> and \<^verbatim>\<open>d.Set("version", ...)\<close>.
\<close>

definition resourceCustomObjectUpdate ::
  "'s provider \<Rightarrow> ResourceData \<Rightarrow> 's world \<Rightarrow> outcome \<times> ResourceData \<times> 's world" where
  "resourceCustomObjectUpdate m d w =
     (let v = decodeCustomObjectValue (json_scan m) (Get_value d)
      in if HasChange_container d \<or> HasChange_key d then
           (let draft = \<lparr>Draft_Container = Get_container d, Draft_Key = Get_key d,
                          Draft_Value = v, Draft_Version = 0\<rparr>;
                (r, w1) = client_Create m draft w
            in case r of
                 Inl err \<Rightarrow> (ReturnErr err, d, w1)
               | Inr None \<Rightarrow> (Panic NilPointerDereference, d, w1)
               | Inr (Some customObject) \<Rightarrow>
                   (let d1 = SetId d (ID customObject);
                        d2 = Set_version d1 (Version customObject);
                        (r2, w2) = client_Delete m (Get_container d2) (Get_key d2)
                                     (Get_version d2) True w1
                    in case r2 of
                         Inl err \<Rightarrow>
                           (ReturnNil, d2, log_Print ''Failed to remove old custom object'' w2)
                       | Inr _ \<Rightarrow> (ReturnNil, d2, w2)))
         else
           (let draft = \<lparr>Draft_Container = Get_container d, Draft_Key = Get_key d,
                          Draft_Value = v, Draft_Version = Get_version d\<rparr>;
                (r, w1) = client_Create m draft w
            in case r of
                 Inl err \<Rightarrow> (ReturnErr err, d, w1)
               | Inr None \<Rightarrow> (Panic NilPointerDereference, d, w1)
               | Inr (Some customObject) \<Rightarrow>
                   (ReturnNil, Set_version (SetId d (ID customObject)) (Version customObject), w1)))"

text \<open>
  \<^verbatim>\<open>resourceCustomObjectDelete\<close>. \<open>None\<close>: the handler waits in \<^verbatim>\<open>Lock\<close> and does not
  return. The deferred \<^verbatim>\<open>Unlock\<close> has its argument \<^verbatim>\<open>d.Id()\<close> evaluated at the
  \<^verbatim>\<open>defer\<close> statement, and it runs when the handler returns and when it panics. The
  arguments of the delete call are evaluated before the call, so
  \<^verbatim>\<open>customObject.Version\<close> on a nil pointer panics before the call is made.
\<close>

definition resourceCustomObjectDelete ::
  "'s provider \<Rightarrow> ResourceData \<Rightarrow> 's world \<Rightarrow> (outcome \<times> ResourceData \<times> 's world) option" where
  "resourceCustomObjectDelete m d w =
     (let container = Get_container d;
          key = Get_key d
      in case mutex_Lock (rd_id d) w of
           None \<Rightarrow> None
         | Some w0 \<Rightarrow>
             (let deferred = mutex_Unlock (rd_id d);
                  (r, w1) = client_Get m container key w0
              in case r of
                   Inl err \<Rightarrow> Some (ReturnErr (could_not_get container key err), d, deferred w1)
                 | Inr None \<Rightarrow> Some (Panic NilPointerDereference, d, deferred w1)
                 | Inr (Some customObject) \<Rightarrow>
                     (let (r2, w2) = client_Delete m container key (Version customObject) False w1
                      in case r2 of
                           Inl err \<Rightarrow>
                             Some (ReturnErr (could_not_delete container key err), d, deferred w2)
                         | Inr _ \<Rightarrow> Some (ReturnNil, d, deferred w2))))"

subsection \<open>A remote store\<close>

text \<open>
  Modelled from the spec: the remote store behind the client is not part of the
  repository. This is the store of section 4.2 of the specification: at most one object
  per pair of container and key; a create without a version (the zero value of the
  draft) makes a new object with version 1 and a new identifier, and fails where an
  object exists; a create with a version updates the object that has this version and
  returns it with the version incremented; a fetch returns the object or not-found; a
  delete removes the object when \<open>force\<close> is set or the version matches, and fails
  otherwise.
\<close>

record store =
  objects :: "string \<times> string \<Rightarrow> CustomObject option"
  created :: nat

definition not_found :: error where
  "not_found = ErrorResponse 404 ''Not Found''"

definition conflict :: error where
  "conflict = ErrorResponse 409 ''Conflict''"

definition remote_id :: "nat \<Rightarrow> string" where
  "remote_id n = ''id-'' @ replicate (Suc n) (CHR ''x'')"

definition json_of_go_map :: "go_map \<Rightarrow> json" where
  "json_of_go_map v = (case v of None \<Rightarrow> JNull | Some members \<Rightarrow> JObject members)"

definition store_CreateOrUpdate ::
  "CustomObjectDraft \<Rightarrow> store \<Rightarrow> (error + CustomObject option) \<times> store" where
  "store_CreateOrUpdate draft s =
     (let identity = (Draft_Container draft, Draft_Key draft)
      in case objects s identity of
           None \<Rightarrow>
             if Draft_Version draft = 0 then
               (let obj = \<lparr>ID = remote_id (created s), Container = Draft_Container draft,
                           Key = Draft_Key draft, Value = json_of_go_map (Draft_Value draft),
                           Version = 1\<rparr>
                in (Inr (Some obj),
                    s\<lparr>objects := (objects s)(identity := Some obj), created := Suc (created s)\<rparr>))
             else (Inl not_found, s)
         | Some old \<Rightarrow>
             if Draft_Version draft = 0 then (Inl conflict, s)
             else if Draft_Version draft = Version old then
               (let obj = old\<lparr>Value := json_of_go_map (Draft_Value draft),
                              Version := Version old + 1\<rparr>
                in (Inr (Some obj), s\<lparr>objects := (objects s)(identity := Some obj)\<rparr>))
             else (Inl conflict, s))"

definition store_FetchByIdentity ::
  "string \<Rightarrow> string \<Rightarrow> store \<Rightarrow> (error + CustomObject option) \<times> store" where
  "store_FetchByIdentity container key s =
     (case objects s (container, key) of
        None \<Rightarrow> (Inl not_found, s)
      | Some obj \<Rightarrow> (Inr (Some obj), s))"

definition store_DeleteByIdentity ::
  "string \<Rightarrow> string \<Rightarrow> int \<Rightarrow> bool \<Rightarrow> store \<Rightarrow> (error + CustomObject option) \<times> store" where
  "store_DeleteByIdentity container key version force s =
     (case objects s (container, key) of
        None \<Rightarrow> (Inl not_found, s)
      | Some obj \<Rightarrow>
          if force \<or> version = Version obj then
            (Inr (Some obj), s\<lparr>objects := (objects s)((container, key) := None)\<rparr>)
          else (Inl conflict, s))"

definition store_client :: "store client" where
  "store_client =
     \<lparr>CustomObjectCreate = store_CreateOrUpdate,
      CustomObjectGetWithContainerAndKey = store_FetchByIdentity,
      CustomObjectDeleteWithContainerAndKey = store_DeleteByIdentity\<rparr>"

subsection \<open>Concrete inputs\<close>

text \<open>
  A scanner that knows a few texts and takes every other text for malformed, and a
  provider over the store above.
\<close>

definition text_a1 :: string where
  \<open>text_a1 = ''{"a":1}''\<close>

definition text_a2 :: string where
  \<open>text_a2 = ''{"a":2}''\<close>

definition example_scan :: "string \<Rightarrow> json option" where
  \<open>example_scan text =
     (if text = ''{}'' then Some (JObject [])
      else if text = text_a1 then Some (JObject [(''a'', JNumber 1)])
      else if text = text_a2 then Some (JObject [(''a'', JNumber 2)])
      else if text = ''[1,2]'' then Some (JArray [JNumber 1, JNumber 2])
      else if text = ''42'' then Some (JNumber 42)
      else if text = ''"text"'' then Some (JString ''text'')
      else if text = ''true'' then Some (JBool True)
      else if text = ''null'' then Some JNull
      else None)\<close>

definition example_provider :: "store provider" where
  "example_provider =
     \<lparr>getClient = store_client, json_scan = example_scan, stringFormatObject = ID\<rparr>"

text \<open>
  The end-to-end scenario of the specification after its second step: the remote object
  \<open>(c1, a)\<close> holds \<^verbatim>\<open>{"a":2}\<close> at version 2, and it is the only object of the store.
\<close>

definition object_a :: CustomObject where
  "object_a = \<lparr>ID = remote_id 0, Container = ''c1'', Key = ''a'',
               Value = JObject [(''a'', JNumber 2)], Version = 2\<rparr>"

definition store_a :: store where
  "store_a = \<lparr>objects = (\<lambda>i. None)((''c1'', ''a'') := Some object_a), created = 1\<rparr>"

definition world_a :: "store world" where
  "world_a = \<lparr>remote = store_a, ctMutexKV = {}, trace = []\<rparr>"

definition attributes_a :: attributes where
  "attributes_a = \<lparr>attr_container = ''c1'', attr_key = ''a'', attr_value = text_a2,
                   attr_version = 2\<rparr>"

text \<open>
  The resource of that object: with nothing planned; with the key renamed to \<open>b\<close>; as it
  was after the first step of the scenario (value \<^verbatim>\<open>{"a":1}\<close>, version 1), which is what
  a client holds that has not seen the second step; that stale resource with a planned
  value that is not well-formed JSON; and the resource with an array planned for the
  value.
\<close>

definition resource_a :: ResourceData where
  "resource_a = \<lparr>rd_id = remote_id 0, rd_state = attributes_a, rd_attrs = attributes_a\<rparr>"

definition resource_a_to_b :: ResourceData where
  "resource_a_to_b =
     \<lparr>rd_id = remote_id 0, rd_state = attributes_a,
      rd_attrs = attributes_a\<lparr>attr_key := ''b''\<rparr>\<rparr>"

definition attributes_a_stale :: attributes where
  "attributes_a_stale = attributes_a\<lparr>attr_value := text_a1, attr_version := 1\<rparr>"

definition resource_a_stale :: ResourceData where
  "resource_a_stale =
     \<lparr>rd_id = remote_id 0, rd_state = attributes_a_stale, rd_attrs = attributes_a_stale\<rparr>"

definition resource_malformed :: ResourceData where
  "resource_malformed =
     \<lparr>rd_id = remote_id 0, rd_state = attributes_a_stale,
      rd_attrs = attributes_a_stale\<lparr>attr_value := ''{a''\<rparr>\<rparr>"

definition resource_array :: ResourceData where
  "resource_array =
     \<lparr>rd_id = remote_id 0, rd_state = attributes_a,
      rd_attrs = attributes_a\<lparr>attr_value := ''[1,2]''\<rparr>\<rparr>"

text \<open>
  The object that the store makes for the renamed resource, and the store that holds
  both objects.
\<close>

definition object_b :: CustomObject where
  "object_b = \<lparr>ID = remote_id 1, Container = ''c1'', Key = ''b'',
               Value = JObject [(''a'', JNumber 2)], Version = 1\<rparr>"

definition store_ab :: store where
  "store_ab = store_a\<lparr>objects := (objects store_a)((''c1'', ''b'') := Some object_b),
                       created := 2\<rparr>"

text \<open>The same world with an empty store, and with the key of the resource held.\<close>

definition world_empty :: "store world" where
  "world_empty = \<lparr>remote = \<lparr>objects = (\<lambda>i. None), created = 0\<rparr>, ctMutexKV = {}, trace = []\<rparr>"

definition world_a_locked :: "store world" where
  "world_a_locked = world_a\<lparr>ctMutexKV := {remote_id 0}\<rparr>"

text \<open>
  Three clients that differ from the store in one call: the delete fails, the fetch
  fails with a status other than 404, the fetch returns neither an object nor an error.
\<close>

definition delete_fails_provider :: "store provider" where
  "delete_fails_provider =
     example_provider\<lparr>getClient := store_client
       \<lparr>CustomObjectDeleteWithContainerAndKey :=
          (\<lambda>container key version force s. (Inl (OtherError ''connection reset''), s))\<rparr>\<rparr>"

definition fetch_fails_provider :: "store provider" where
  "fetch_fails_provider =
     example_provider\<lparr>getClient := store_client
       \<lparr>CustomObjectGetWithContainerAndKey :=
          (\<lambda>container key s. (Inl (ErrorResponse 500 ''Internal Server Error''), s))\<rparr>\<rparr>"

definition fetch_nil_provider :: "store provider" where
  "fetch_nil_provider =
     example_provider\<lparr>getClient := store_client
       \<lparr>CustomObjectGetWithContainerAndKey := (\<lambda>container key s. (Inr None, s))\<rparr>\<rparr>"

subsection \<open>Predicates of the statements\<close>

text \<open>A remote call, as opposed to a lock operation or a log line.\<close>

fun is_remote_call :: "event \<Rightarrow> bool" where
  "is_remote_call (CallCreate draft) = True"
| "is_remote_call (CallGet container key) = True"
| "is_remote_call (CallDelete container key version force) = True"
| "is_remote_call (Lock k) = False"
| "is_remote_call (Unlock k) = False"
| "is_remote_call (LogLine msg) = False"

text \<open>The JSON values that are neither an object nor \<^verbatim>\<open>null\<close>.\<close>

fun number_string_bool_or_array :: "json \<Rightarrow> bool" where
  "number_string_bool_or_array (JNumber n) = True"
| "number_string_bool_or_array (JString s) = True"
| "number_string_bool_or_array (JBool b) = True"
| "number_string_bool_or_array (JArray js) = True"
| "number_string_bool_or_array JNull = False"
| "number_string_bool_or_array (JObject members) = False"

text \<open>The errors that the read handler takes for not-found: an \<open>ErrorResponse\<close> with status 404.\<close>

fun is_not_found :: "error \<Rightarrow> bool" where
  "is_not_found (ErrorResponse StatusCode Message) = (StatusCode = 404)"
| "is_not_found (OtherError msg) = False"
| "is_not_found (WrapError msg err) = False"

section \<open>Properties\<close>

subsection \<open>What each handler does, by the results of its remote calls\<close>

lemmas rd_defs = SetId_def Get_container_def Get_key_def Get_value_def Get_version_def
  Set_container_def Set_key_def Set_version_def
lemmas world_defs = emit_def log_Print_def client_Create_def client_Get_def client_Delete_def
  mutex_Lock_def mutex_Unlock_def

lemma decode_malformed:
  "parse text = None \<Longrightarrow> decodeCustomObjectValue parse text = Some []"
  by (simp add: decodeCustomObjectValue_def json_Unmarshal_def)

lemma decode_non_object:
  "parse text = Some j \<Longrightarrow> number_string_bool_or_array j \<Longrightarrow>
     decodeCustomObjectValue parse text = Some []"
  by (cases j) (simp_all add: decodeCustomObjectValue_def json_Unmarshal_def)

lemma decode_null:
  "parse text = Some JNull \<Longrightarrow> decodeCustomObjectValue parse text = None"
  by (simp add: decodeCustomObjectValue_def json_Unmarshal_def)

lemma decode_object:
  "parse text = Some (JObject members) \<Longrightarrow>
     decodeCustomObjectValue parse text =
       Some (fold (\<lambda>(k, v) m. AList.update k v m) members [])"
  by (simp add: decodeCustomObjectValue_def json_Unmarshal_def)

lemma Create_result:
  assumes "CustomObjectCreate (getClient m)
               \<lparr>Draft_Container = Get_container d, Draft_Key = Get_key d,
                Draft_Value = decodeCustomObjectValue (json_scan m) (Get_value d),
                Draft_Version = 0\<rparr> (remote w) = (r, s1)"
  shows "resourceCustomObjectCreate m d w =
           (case r of Inl err \<Rightarrow> ReturnErr err
                    | Inr None \<Rightarrow> Panic NilPointerDereference
                    | Inr (Some customObject) \<Rightarrow> ReturnNil,
            case r of Inr (Some customObject) \<Rightarrow>
                        Set_version (SetId d (ID customObject)) (Version customObject)
                    | _ \<Rightarrow> d,
            w\<lparr>remote := s1,
              trace := trace w @
                [CallCreate \<lparr>Draft_Container = Get_container d, Draft_Key = Get_key d,
                   Draft_Value = decodeCustomObjectValue (json_scan m) (Get_value d),
                   Draft_Version = 0\<rparr>]\<rparr>)"
  using assms
  by (simp add: resourceCustomObjectCreate_def Let_def world_defs
        split: sum.splits option.splits)

lemma Update_create_failed:
  assumes "CustomObjectCreate (getClient m)
               \<lparr>Draft_Container = Get_container d, Draft_Key = Get_key d,
                Draft_Value = decodeCustomObjectValue (json_scan m) (Get_value d),
                Draft_Version = (if HasChange_container d \<or> HasChange_key d then 0
                                 else Get_version d)\<rparr> (remote w) = (Inl err, s1)"
  shows "resourceCustomObjectUpdate m d w =
           (ReturnErr err, d,
            w\<lparr>remote := s1,
              trace := trace w @
                [CallCreate \<lparr>Draft_Container = Get_container d, Draft_Key = Get_key d,
                   Draft_Value = decodeCustomObjectValue (json_scan m) (Get_value d),
                   Draft_Version = (if HasChange_container d \<or> HasChange_key d then 0
                                    else Get_version d)\<rparr>]\<rparr>)"
  using assms
  by (cases "HasChange_container d \<or> HasChange_key d")
     (simp_all add: resourceCustomObjectUpdate_def Let_def world_defs)

lemma Update_first_call:
  "\<exists>rest. trace (snd (snd (resourceCustomObjectUpdate m d w))) =
     trace w @
       CallCreate \<lparr>Draft_Container = Get_container d, Draft_Key = Get_key d,
          Draft_Value = decodeCustomObjectValue (json_scan m) (Get_value d),
          Draft_Version = (if HasChange_container d \<or> HasChange_key d then 0
                           else Get_version d)\<rparr> # rest"
  by (auto simp add: resourceCustomObjectUpdate_def Let_def world_defs
        split: sum.splits option.splits prod.splits)

lemma Update_error_is_remote:
  assumes "fst (resourceCustomObjectUpdate m d w) = ReturnErr err"
  shows "fst (CustomObjectCreate (getClient m)
               \<lparr>Draft_Container = Get_container d, Draft_Key = Get_key d,
                Draft_Value = decodeCustomObjectValue (json_scan m) (Get_value d),
                Draft_Version = (if HasChange_container d \<or> HasChange_key d then 0
                                 else Get_version d)\<rparr> (remote w)) = Inl err"
  using assms
  by (auto simp add: resourceCustomObjectUpdate_def Let_def world_defs
        split: sum.splits option.splits prod.splits if_splits)

lemma Update_identity_change:
  assumes chg: "HasChange_container d \<or> HasChange_key d"
    and cr: "CustomObjectCreate (getClient m)
               \<lparr>Draft_Container = Get_container d, Draft_Key = Get_key d,
                Draft_Value = decodeCustomObjectValue (json_scan m) (Get_value d),
                Draft_Version = 0\<rparr> (remote w) = (Inr (Some customObject), s1)"
    and del: "CustomObjectDeleteWithContainerAndKey (getClient m) (Get_container d) (Get_key d)
               (Version customObject) True s1 = (r2, s2)"
  shows "resourceCustomObjectUpdate m d w =
           (ReturnNil, Set_version (SetId d (ID customObject)) (Version customObject),
            w\<lparr>remote := s2,
              trace := trace w @
                [CallCreate \<lparr>Draft_Container = Get_container d, Draft_Key = Get_key d,
                   Draft_Value = decodeCustomObjectValue (json_scan m) (Get_value d),
                   Draft_Version = 0\<rparr>,
                 CallDelete (Get_container d) (Get_key d) (Version customObject) True] @
                (case r2 of Inl err \<Rightarrow> [LogLine ''Failed to remove old custom object'']
                          | Inr x \<Rightarrow> [])\<rparr>)"
  using chg cr del
  by (cases r2) (simp_all add: resourceCustomObjectUpdate_def Let_def rd_defs world_defs)

lemma Read_fetch_failed:
  assumes "CustomObjectGetWithContainerAndKey (getClient m) (Get_container d) (Get_key d)
             (remote w) = (Inl err, s1)"
  shows "resourceCustomObjectRead m d w =
           (if is_not_found err then ReturnNil else ReturnErr err,
            if is_not_found err then SetId d '''' else d,
            w\<lparr>remote := s1,
              trace := trace w @
                [LogLine (reading_message (Get_container d) (Get_key d)),
                 CallGet (Get_container d) (Get_key d)]\<rparr>)"
  using assms
  by (cases err) (simp_all add: resourceCustomObjectRead_def Let_def world_defs)

lemma Read_fetched:
  assumes "CustomObjectGetWithContainerAndKey (getClient m) (Get_container d) (Get_key d)
             (remote w) = (Inr r, s1)"
  shows "resourceCustomObjectRead m d w =
           (ReturnNil,
            case r of
              None \<Rightarrow> SetId d ''''
            | Some customObject \<Rightarrow>
                Set_version
                  (Set_value (Set_key (Set_container d (Container customObject)) (Key customObject))
                     (Value customObject))
                  (Version customObject),
            w\<lparr>remote := s1,
              trace := trace w @
                [LogLine (reading_message (Get_container d) (Get_key d)),
                 CallGet (Get_container d) (Get_key d)] @
                (case r of
                   None \<Rightarrow> [LogLine ''[DEBUG] No custom object found'']
                 | Some customObject \<Rightarrow>
                     [LogLine ''[DEBUG] Found following custom object:'',
                      LogLine (stringFormatObject m customObject)])\<rparr>)"
  using assms
  by (cases r) (simp_all add: resourceCustomObjectRead_def Let_def world_defs)



lemma Delete_fetched_nil:
  assumes "rd_id d \<notin> ctMutexKV w"
    and "CustomObjectGetWithContainerAndKey (getClient m) (Get_container d) (Get_key d)
           (remote w) = (Inr None, s1)"
  shows "resourceCustomObjectDelete m d w =
           Some (Panic NilPointerDereference, d,
                 w\<lparr>remote := s1,
                   trace := trace w @
                     [Lock (rd_id d), CallGet (Get_container d) (Get_key d), Unlock (rd_id d)]\<rparr>)"
  using assms
  by (simp add: resourceCustomObjectDelete_def Let_def world_defs)


subsection \<open>Unfolding the concrete inputs\<close>

lemmas example_defs = example_provider_def store_client_def example_scan_def text_a1_def text_a2_def
  object_a_def store_a_def world_a_def attributes_a_def resource_a_def resource_a_to_b_def
  resource_malformed_def resource_array_def attributes_a_stale_def resource_a_stale_def
  world_empty_def world_a_locked_def delete_fails_provider_def fetch_fails_provider_def
  fetch_nil_provider_def object_b_def store_ab_def
lemmas store_defs = store_CreateOrUpdate_def store_FetchByIdentity_def store_DeleteByIdentity_def
  not_found_def conflict_def remote_id_def json_of_go_map_def

subsection \<open>The value decoder\<close>

text \<open>
  C6. The decoder returns a document for every text and has no error result. Where the
  value of the resource is not well-formed JSON, it returns the empty document; the
  create and the update handler then send their request with the empty document, and
  an error that either returns is the error of that remote call.
\<close>

theorem malformed_value_decodes_to_empty_document:
  assumes "json_scan m (Get_value d) = None"
  shows "decodeCustomObjectValue (json_scan m) (Get_value d) = Some [] \<and>
         trace (snd (snd (resourceCustomObjectCreate m d w))) =
           trace w @ [CallCreate \<lparr>Draft_Container = Get_container d, Draft_Key = Get_key d,
                        Draft_Value = Some [], Draft_Version = 0\<rparr>] \<and>
         (fst (resourceCustomObjectCreate m d w) = ReturnErr err \<longrightarrow>
            fst (CustomObjectCreate (getClient m)
                   \<lparr>Draft_Container = Get_container d, Draft_Key = Get_key d,
                    Draft_Value = Some [], Draft_Version = 0\<rparr> (remote w)) = Inl err) \<and>
         (\<exists>rest. trace (snd (snd (resourceCustomObjectUpdate m d w))) =
            trace w @ CallCreate \<lparr>Draft_Container = Get_container d, Draft_Key = Get_key d,
                        Draft_Value = Some [],
                        Draft_Version = (if HasChange_container d \<or> HasChange_key d then 0
                                         else Get_version d)\<rparr> # rest) \<and>
         (fst (resourceCustomObjectUpdate m d w) = ReturnErr err' \<longrightarrow>
            fst (CustomObjectCreate (getClient m)
                   \<lparr>Draft_Container = Get_container d, Draft_Key = Get_key d,
                    Draft_Value = Some [],
                    Draft_Version = (if HasChange_container d \<or> HasChange_key d then 0
                                     else Get_version d)\<rparr> (remote w)) = Inl err')"
proof -
  have dec: "decodeCustomObjectValue (json_scan m) (Get_value d) = Some []"
    using assms by (rule decode_malformed)
  obtain r s1 where cr: "CustomObjectCreate (getClient m)
               \<lparr>Draft_Container = Get_container d, Draft_Key = Get_key d,
                Draft_Value = decodeCustomObjectValue (json_scan m) (Get_value d),
                Draft_Version = 0\<rparr> (remote w) = (r, s1)"
    by (cases "CustomObjectCreate (getClient m)
               \<lparr>Draft_Container = Get_container d, Draft_Key = Get_key d,
                Draft_Value = decodeCustomObjectValue (json_scan m) (Get_value d),
                Draft_Version = 0\<rparr> (remote w)") 
  have c1: "trace (snd (snd (resourceCustomObjectCreate m d w))) =
           trace w @ [CallCreate \<lparr>Draft_Container = Get_container d, Draft_Key = Get_key d,
                        Draft_Value = Some [], Draft_Version = 0\<rparr>]"
    using Create_result [OF cr] dec by simp
  have c2: "fst (resourceCustomObjectCreate m d w) = ReturnErr err \<longrightarrow>
            fst (CustomObjectCreate (getClient m)
                   \<lparr>Draft_Container = Get_container d, Draft_Key = Get_key d,
                    Draft_Value = Some [], Draft_Version = 0\<rparr> (remote w)) = Inl err"
    using Create_result [OF cr] cr dec by (auto split: sum.splits option.splits)
  have u1: "\<exists>rest. trace (snd (snd (resourceCustomObjectUpdate m d w))) =
            trace w @ CallCreate \<lparr>Draft_Container = Get_container d, Draft_Key = Get_key d,
                        Draft_Value = Some [],
                        Draft_Version = (if HasChange_container d \<or> HasChange_key d then 0
                                         else Get_version d)\<rparr> # rest"
    using Update_first_call [of m d w] dec by simp
  have u2: "fst (resourceCustomObjectUpdate m d w) = ReturnErr err' \<longrightarrow>
            fst (CustomObjectCreate (getClient m)
                   \<lparr>Draft_Container = Get_container d, Draft_Key = Get_key d,
                    Draft_Value = Some [],
                    Draft_Version = (if HasChange_container d \<or> HasChange_key d then 0
                                     else Get_version d)\<rparr> (remote w)) = Inl err'"
    using Update_error_is_remote [of m d w err'] dec by simp
  from dec c1 c2 u1 u2 show ?thesis by blast
qed

theorem malformed_value_witness:
  "json_scan example_provider (Get_value resource_malformed) = None \<and>
   decodeCustomObjectValue (json_scan example_provider) (Get_value resource_malformed) = Some [] \<and>
   trace (snd (snd (resourceCustomObjectCreate example_provider resource_malformed world_a))) =
     [CallCreate \<lparr>Draft_Container = ''c1'', Draft_Key = ''a'', Draft_Value = Some [],
                  Draft_Version = 0\<rparr>] \<and>
   fst (resourceCustomObjectCreate example_provider resource_malformed world_a) = ReturnErr conflict \<and>
   fst (store_CreateOrUpdate \<lparr>Draft_Container = ''c1'', Draft_Key = ''a'', Draft_Value = Some [],
                               Draft_Version = 0\<rparr> store_a) = Inl conflict \<and>
   trace (snd (snd (resourceCustomObjectUpdate example_provider resource_malformed world_a))) =
     [CallCreate \<lparr>Draft_Container = ''c1'', Draft_Key = ''a'', Draft_Value = Some [],
                  Draft_Version = 1\<rparr>] \<and>
   fst (resourceCustomObjectUpdate example_provider resource_malformed world_a) = ReturnErr conflict \<and>
   fst (store_CreateOrUpdate \<lparr>Draft_Container = ''c1'', Draft_Key = ''a'', Draft_Value = Some [],
                               Draft_Version = 1\<rparr> store_a) = Inl conflict"
  using malformed_value_decodes_to_empty_document
          [of example_provider resource_malformed world_a conflict conflict]
  by (simp add: example_defs store_defs rd_defs world_defs HasChange_container_def HasChange_key_def
        resourceCustomObjectCreate_def resourceCustomObjectUpdate_def
        decodeCustomObjectValue_def json_Unmarshal_def Let_def)

text \<open>
  C10. Where the value of the resource is well-formed JSON and is a number, a string, a
  boolean or an array, the decoder returns the empty document as well, and the create
  and the update handler send their request with the empty document in place of the
  value.
\<close>

theorem non_object_value_decodes_to_empty_document:
  assumes "json_scan m (Get_value d) = Some j"
    and "number_string_bool_or_array j"
  shows "decodeCustomObjectValue (json_scan m) (Get_value d) = Some [] \<and>
         trace (snd (snd (resourceCustomObjectCreate m d w))) =
           trace w @ [CallCreate \<lparr>Draft_Container = Get_container d, Draft_Key = Get_key d,
                        Draft_Value = Some [], Draft_Version = 0\<rparr>] \<and>
         (\<exists>rest. trace (snd (snd (resourceCustomObjectUpdate m d w))) =
            trace w @ CallCreate \<lparr>Draft_Container = Get_container d, Draft_Key = Get_key d,
                        Draft_Value = Some [],
                        Draft_Version = (if HasChange_container d \<or> HasChange_key d then 0
                                         else Get_version d)\<rparr> # rest)"
proof -
  have dec: "decodeCustomObjectValue (json_scan m) (Get_value d) = Some []"
    using assms by (rule decode_non_object)
  obtain r s1 where cr: "CustomObjectCreate (getClient m)
               \<lparr>Draft_Container = Get_container d, Draft_Key = Get_key d,
                Draft_Value = decodeCustomObjectValue (json_scan m) (Get_value d),
                Draft_Version = 0\<rparr> (remote w) = (r, s1)"
    by (cases "CustomObjectCreate (getClient m)
               \<lparr>Draft_Container = Get_container d, Draft_Key = Get_key d,
                Draft_Value = decodeCustomObjectValue (json_scan m) (Get_value d),
                Draft_Version = 0\<rparr> (remote w)")
  have c1: "trace (snd (snd (resourceCustomObjectCreate m d w))) =
           trace w @ [CallCreate \<lparr>Draft_Container = Get_container d, Draft_Key = Get_key d,
                        Draft_Value = Some [], Draft_Version = 0\<rparr>]"
    using Create_result [OF cr] dec by simp
  have u1: "\<exists>rest. trace (snd (snd (resourceCustomObjectUpdate m d w))) =
            trace w @ CallCreate \<lparr>Draft_Container = Get_container d, Draft_Key = Get_key d,
                        Draft_Value = Some [],
                        Draft_Version = (if HasChange_container d \<or> HasChange_key d then 0
                                         else Get_version d)\<rparr> # rest"
    using Update_first_call [of m d w] dec by simp
  from dec c1 u1 show ?thesis by blast
qed

theorem non_object_value_witness:
  "json_scan example_provider (Get_value resource_array) = Some (JArray [JNumber 1, JNumber 2]) \<and>
   number_string_bool_or_array (JArray [JNumber 1, JNumber 2]) \<and>
   decodeCustomObjectValue (json_scan example_provider) (Get_value resource_array) = Some [] \<and>
   trace (snd (snd (resourceCustomObjectCreate example_provider resource_array world_a))) =
     [CallCreate \<lparr>Draft_Container = ''c1'', Draft_Key = ''a'', Draft_Value = Some [],
                  Draft_Version = 0\<rparr>] \<and>
   trace (snd (snd (resourceCustomObjectUpdate example_provider resource_array world_a))) =
     [CallCreate \<lparr>Draft_Container = ''c1'', Draft_Key = ''a'', Draft_Value = Some [],
                  Draft_Version = 2\<rparr>] \<and>
   fst (resourceCustomObjectUpdate example_provider resource_array world_a) = ReturnNil \<and>
   objects (remote (snd (snd (resourceCustomObjectUpdate example_provider resource_array world_a))))
     (''c1'', ''a'') = Some (object_a\<lparr>Value := JObject [], Version := 3\<rparr>)"
  using non_object_value_decodes_to_empty_document
          [of example_provider resource_array "JArray [JNumber 1, JNumber 2]" world_a]
  by (simp add: example_defs store_defs rd_defs world_defs HasChange_container_def HasChange_key_def
        resourceCustomObjectCreate_def resourceCustomObjectUpdate_def
        decodeCustomObjectValue_def json_Unmarshal_def Let_def)

subsection \<open>The read handler\<close>

text \<open>
  C5. Where the fetch of the read handler fails with an \<open>ErrorResponse\<close> of status 404,
  the handler clears the resource identifier, leaves the attributes as they are and
  returns nil; where the fetch fails with any other error, the handler returns that
  error and leaves the resource data as it is.
\<close>

theorem Read_not_found_clears_the_identifier:
  assumes "CustomObjectGetWithContainerAndKey (getClient m) (Get_container d) (Get_key d)
             (remote w) = (Inl err, s1)"
  shows "(is_not_found err \<longrightarrow>
            fst (resourceCustomObjectRead m d w) = ReturnNil \<and>
            fst (snd (resourceCustomObjectRead m d w)) = SetId d '''' \<and>
            rd_id (fst (snd (resourceCustomObjectRead m d w))) = '''') \<and>
         (\<not> is_not_found err \<longrightarrow>
            fst (resourceCustomObjectRead m d w) = ReturnErr err \<and>
            fst (snd (resourceCustomObjectRead m d w)) = d)"
  using Read_fetch_failed [OF assms] by (simp add: SetId_def)

theorem Read_not_found_witness:
  "CustomObjectGetWithContainerAndKey (getClient example_provider) (Get_container resource_a)
     (Get_key resource_a) (remote world_empty) = (Inl (ErrorResponse 404 ''Not Found''), remote world_empty) \<and>
   is_not_found (ErrorResponse 404 ''Not Found'') \<and>
   fst (resourceCustomObjectRead example_provider resource_a world_empty) = ReturnNil \<and>
   rd_id (fst (snd (resourceCustomObjectRead example_provider resource_a world_empty))) = '''' \<and>
   CustomObjectGetWithContainerAndKey (getClient fetch_fails_provider) (Get_container resource_a)
     (Get_key resource_a) (remote world_a) =
       (Inl (ErrorResponse 500 ''Internal Server Error''), remote world_a) \<and>
   \<not> is_not_found (ErrorResponse 500 ''Internal Server Error'') \<and>
   fst (resourceCustomObjectRead fetch_fails_provider resource_a world_a) =
     ReturnErr (ErrorResponse 500 ''Internal Server Error'') \<and>
   fst (snd (resourceCustomObjectRead fetch_fails_provider resource_a world_a)) = resource_a"
  using Read_not_found_clears_the_identifier
          [of example_provider resource_a world_empty "ErrorResponse 404 ''Not Found''"
              "remote world_empty"]
        Read_not_found_clears_the_identifier
          [of fetch_fails_provider resource_a world_a
              "ErrorResponse 500 ''Internal Server Error''" "remote world_a"]
  by (simp add: example_defs store_defs rd_defs)

text \<open>
  What the read handler leaves in the resource data when the fetch returns an object,
  and when it returns neither an object nor an error.
\<close>

lemma Read_fields:
  assumes "CustomObjectGetWithContainerAndKey (getClient m) (Get_container d) (Get_key d)
             (remote w) = (Inr (Some customObject), s1)"
  shows "fst (resourceCustomObjectRead m d w) = ReturnNil"
    and "rd_id (fst (snd (resourceCustomObjectRead m d w))) = rd_id d"
    and "Get_container (fst (snd (resourceCustomObjectRead m d w))) = Container customObject"
    and "Get_key (fst (snd (resourceCustomObjectRead m d w))) = Key customObject"
    and "Get_version (fst (snd (resourceCustomObjectRead m d w))) = Version customObject"
    and "Get_value (fst (snd (resourceCustomObjectRead m d w))) =
           (case Value customObject of
              JString s \<Rightarrow> s
            | JNull \<Rightarrow> ''''
            | _ \<Rightarrow> Get_value d)"
  using Read_fetched [OF assms]
  by (simp_all add: rd_defs Set_value_def split: json.splits)

lemma Read_fetched_nil:
  assumes "CustomObjectGetWithContainerAndKey (getClient m) (Get_container d) (Get_key d)
             (remote w) = (Inr None, s1)"
  shows "fst (resourceCustomObjectRead m d w) = ReturnNil"
    and "fst (snd (resourceCustomObjectRead m d w)) = SetId d ''''"
  using Read_fetched [OF assms] by simp_all

text \<open>
  C7. The read handler passes the four fetched fields to \<^verbatim>\<open>d.Set\<close>. Container, key and
  version are overwritten. The value it passes is the decoded document, and the field is
  a string: for a remote object whose value is a JSON object the field keeps what it
  held. Here the resource holds the value \<^verbatim>\<open>{"a":1}\<close> at version 1 and the remote object
  holds \<^verbatim>\<open>{"a":2}\<close> at version 2: after the read the version is 2 and the value is still
  \<^verbatim>\<open>{"a":1}\<close>.
\<close>

theorem Read_keeps_the_local_value:
  "fst (resourceCustomObjectRead example_provider resource_a_stale world_a) = ReturnNil \<and>
   objects (remote world_a) (Get_container resource_a_stale, Get_key resource_a_stale) =
     Some \<lparr>ID = remote_id 0, Container = ''c1'', Key = ''a'',
           Value = JObject [(''a'', JNumber 2)], Version = 2\<rparr> \<and>
   Get_version resource_a_stale = 1 \<and>
   Get_version (fst (snd (resourceCustomObjectRead example_provider resource_a_stale world_a))) = 2 \<and>
   Get_value resource_a_stale = text_a1 \<and>
   Get_value (fst (snd (resourceCustomObjectRead example_provider resource_a_stale world_a))) = text_a1 \<and>
   json_scan example_provider text_a1 = Some (JObject [(''a'', JNumber 1)])"
  by (simp add: example_defs store_defs rd_defs world_defs Set_value_def
        resourceCustomObjectRead_def Let_def)

subsection \<open>The delete handler\<close>






text \<open>
  C9. Where the fetch of the delete handler returns neither an object nor an error, the
  handler reads the version through the nil pointer: it panics, having made no delete
  call (the deferred unlock still runs). The read handler, given the same result of the
  fetch, clears the resource identifier and returns nil.
\<close>

theorem Delete_panics_on_nil_object:
  assumes "rd_id d \<notin> ctMutexKV w"
    and "CustomObjectGetWithContainerAndKey (getClient m) (Get_container d) (Get_key d)
           (remote w) = (Inr None, s1)"
  shows "resourceCustomObjectDelete m d w =
           Some (Panic NilPointerDereference, d,
                 w\<lparr>remote := s1,
                   trace := trace w @
                     [Lock (rd_id d), CallGet (Get_container d) (Get_key d),
                      Unlock (rd_id d)]\<rparr>) \<and>
         fst (resourceCustomObjectRead m d w) = ReturnNil \<and>
         fst (snd (resourceCustomObjectRead m d w)) = SetId d ''''"
  using Delete_fetched_nil [OF assms] Read_fetched_nil [OF assms(2)] by simp

theorem Delete_panics_witness:
  "rd_id resource_a \<notin> ctMutexKV world_a \<and>
   CustomObjectGetWithContainerAndKey (getClient fetch_nil_provider) (Get_container resource_a)
     (Get_key resource_a) (remote world_a) = (Inr None, store_a) \<and>
   resourceCustomObjectDelete fetch_nil_provider resource_a world_a =
     Some (Panic NilPointerDereference, resource_a,
           world_a\<lparr>trace := [Lock (rd_id resource_a), CallGet ''c1'' ''a'',
                             Unlock (rd_id resource_a)]\<rparr>) \<and>
   fst (resourceCustomObjectRead fetch_nil_provider resource_a world_a) = ReturnNil \<and>
   rd_id (fst (snd (resourceCustomObjectRead fetch_nil_provider resource_a world_a))) = ''''"
  using Delete_panics_on_nil_object [of resource_a world_a fetch_nil_provider store_a]
  by (simp add: example_defs store_defs rd_defs)

subsection \<open>The update handler\<close>

text \<open>
  C3. In an update that changes the container or the key, once the create call has
  returned an object the handler returns nil, and the resource data holds the
  identifier and the version of that object, whatever the delete call returns. Where the
  delete call fails, the handler writes one log line and makes no further remote call:
  the store is left as the failed delete call left it.
\<close>

theorem Update_identity_change_ignores_delete_failure:
  assumes chg: "HasChange_container d \<or> HasChange_key d"
    and cr: "CustomObjectCreate (getClient m)
               \<lparr>Draft_Container = Get_container d, Draft_Key = Get_key d,
                Draft_Value = decodeCustomObjectValue (json_scan m) (Get_value d),
                Draft_Version = 0\<rparr> (remote w) = (Inr (Some customObject), s1)"
  shows "fst (resourceCustomObjectUpdate m d w) = ReturnNil \<and>
         rd_id (fst (snd (resourceCustomObjectUpdate m d w))) = ID customObject \<and>
         Get_version (fst (snd (resourceCustomObjectUpdate m d w))) = Version customObject \<and>
         (CustomObjectDeleteWithContainerAndKey (getClient m) (Get_container d) (Get_key d)
            (Version customObject) True s1 = (Inl err, s2) \<longrightarrow>
          snd (snd (resourceCustomObjectUpdate m d w)) =
            w\<lparr>remote := s2,
              trace := trace w @
                [CallCreate \<lparr>Draft_Container = Get_container d, Draft_Key = Get_key d,
                   Draft_Value = decodeCustomObjectValue (json_scan m) (Get_value d),
                   Draft_Version = 0\<rparr>,
                 CallDelete (Get_container d) (Get_key d) (Version customObject) True,
                 LogLine ''Failed to remove old custom object'']\<rparr>)"
proof -
  obtain r2 s2' where del: "CustomObjectDeleteWithContainerAndKey (getClient m) (Get_container d)
      (Get_key d) (Version customObject) True s1 = (r2, s2')"
    by (cases "CustomObjectDeleteWithContainerAndKey (getClient m) (Get_container d)
      (Get_key d) (Version customObject) True s1")
  from Update_identity_change [OF chg cr del] del show ?thesis
    by (auto simp add: rd_defs)
qed

theorem Update_ignores_delete_failure_witness:
  "(HasChange_container resource_a_to_b \<or> HasChange_key resource_a_to_b) \<and>
   CustomObjectCreate (getClient delete_fails_provider)
     \<lparr>Draft_Container = ''c1'', Draft_Key = ''b'', Draft_Value = Some [(''a'', JNumber 2)],
      Draft_Version = 0\<rparr> (remote world_a) = (Inr (Some object_b), store_ab) \<and>
   CustomObjectDeleteWithContainerAndKey (getClient delete_fails_provider) ''c1'' ''b''
     (Version object_b) True store_ab = (Inl (OtherError ''connection reset''), store_ab) \<and>
   fst (resourceCustomObjectUpdate delete_fails_provider resource_a_to_b world_a) = ReturnNil \<and>
   rd_id (fst (snd (resourceCustomObjectUpdate delete_fails_provider resource_a_to_b world_a))) =
     ID object_b \<and>
   Get_version (fst (snd (resourceCustomObjectUpdate delete_fails_provider resource_a_to_b world_a))) =
     Version object_b \<and>
   snd (snd (resourceCustomObjectUpdate delete_fails_provider resource_a_to_b world_a)) =
     world_a\<lparr>remote := store_ab,
       trace :=
         [CallCreate \<lparr>Draft_Container = ''c1'', Draft_Key = ''b'',
                      Draft_Value = Some [(''a'', JNumber 2)], Draft_Version = 0\<rparr>,
          CallDelete ''c1'' ''b'' 1 True,
          LogLine ''Failed to remove old custom object'']\<rparr> \<and>
   objects store_ab (''c1'', ''b'') = Some object_b"
  using Update_identity_change_ignores_delete_failure
          [where d = resource_a_to_b and m = delete_fails_provider and w = world_a
             and customObject = object_b and ?s1.0 = store_ab
             and err = "OtherError ''connection reset''" and ?s2.0 = store_ab]
  by (simp add: example_defs store_defs rd_defs HasChange_container_def HasChange_key_def
        decodeCustomObjectValue_def json_Unmarshal_def Let_def)

text \<open>
  The remote calls of an update that changes the container or the key, once the create
  call has returned an object: the create call, and a delete call whose container and
  key are those of the draft just created, and whose version is the version of the
  object that the create call returned.
\<close>

lemma Update_identity_change_calls:
  assumes "HasChange_container d \<or> HasChange_key d"
    and "CustomObjectCreate (getClient m)
               \<lparr>Draft_Container = Get_container d, Draft_Key = Get_key d,
                Draft_Value = decodeCustomObjectValue (json_scan m) (Get_value d),
                Draft_Version = 0\<rparr> (remote w) = (Inr (Some customObject), s1)"
  shows "filter is_remote_call (trace (snd (snd (resourceCustomObjectUpdate m d w)))) =
           filter is_remote_call (trace w) @
             [CallCreate \<lparr>Draft_Container = Get_container d, Draft_Key = Get_key d,
                Draft_Value = decodeCustomObjectValue (json_scan m) (Get_value d),
                Draft_Version = 0\<rparr>,
              CallDelete (Get_container d) (Get_key d) (Version customObject) True]"
proof -
  obtain r2 s2 where del: "CustomObjectDeleteWithContainerAndKey (getClient m) (Get_container d)
      (Get_key d) (Version customObject) True s1 = (r2, s2)"
    by (cases "CustomObjectDeleteWithContainerAndKey (getClient m) (Get_container d)
      (Get_key d) (Version customObject) True s1")
  from Update_identity_change [OF assms del] show ?thesis
    by (cases r2) simp_all
qed

text \<open>
  C1. In the rename of the key from \<open>a\<close> to \<open>b\<close> (the last known state is the object
  \<open>(c1, a)\<close> at version 2), the handler creates the object at \<open>(c1, b)\<close> and then calls
  the delete at \<open>(c1, b)\<close> with version 1, the version of the object just created, and
  \<open>force = True\<close>. No call is made at \<open>(c1, a)\<close>, and the version 2 is passed to no call.
\<close>

theorem Update_rename_deletes_at_the_new_identity:
  "attr_container (rd_state resource_a_to_b) = ''c1'' \<and>
   attr_key (rd_state resource_a_to_b) = ''a'' \<and>
   attr_version (rd_state resource_a_to_b) = 2 \<and>
   Get_container resource_a_to_b = ''c1'' \<and>
   Get_key resource_a_to_b = ''b'' \<and>
   trace (snd (snd (resourceCustomObjectUpdate example_provider resource_a_to_b world_a))) =
     [CallCreate \<lparr>Draft_Container = ''c1'', Draft_Key = ''b'',
                  Draft_Value = Some [(''a'', JNumber 2)], Draft_Version = 0\<rparr>,
      CallDelete ''c1'' ''b'' 1 True]"
  by (simp add: example_defs store_defs rd_defs world_defs HasChange_container_def HasChange_key_def
        resourceCustomObjectUpdate_def decodeCustomObjectValue_def json_Unmarshal_def Let_def)

text \<open>
  Against the store of section 4.2, an update that changes the container or the key to
  an identity that is free returns nil and leaves the objects of the store as they were:
  the object it creates is the object it deletes. The resource identifier is that of the
  deleted object.
\<close>

lemma Update_identity_change_on_store:
  assumes chg: "HasChange_container d \<or> HasChange_key d"
    and cl: "getClient m = store_client"
    and free: "objects (remote w) (Get_container d, Get_key d) = None"
  shows "fst (resourceCustomObjectUpdate m d w) = ReturnNil"
    and "rd_id (fst (snd (resourceCustomObjectUpdate m d w))) = remote_id (created (remote w))"
    and "objects (remote (snd (snd (resourceCustomObjectUpdate m d w)))) = objects (remote w)"
proof -
  let ?obj = "\<lparr>ID = remote_id (created (remote w)), Container = Get_container d,
                Key = Get_key d,
                Value = json_of_go_map (decodeCustomObjectValue (json_scan m) (Get_value d)),
                Version = 1\<rparr>"
  let ?s1 = "(remote w)\<lparr>objects := (objects (remote w))((Get_container d, Get_key d) := Some ?obj),
                created := Suc (created (remote w))\<rparr>"
  let ?s2 = "?s1\<lparr>objects := (objects ?s1)((Get_container d, Get_key d) := None)\<rparr>"
  have cr: "CustomObjectCreate (getClient m)
               \<lparr>Draft_Container = Get_container d, Draft_Key = Get_key d,
                Draft_Value = decodeCustomObjectValue (json_scan m) (Get_value d),
                Draft_Version = 0\<rparr> (remote w) = (Inr (Some ?obj), ?s1)"
    using free by (simp add: cl store_client_def store_CreateOrUpdate_def Let_def)
  have del: "CustomObjectDeleteWithContainerAndKey (getClient m) (Get_container d) (Get_key d)
               (Version ?obj) True ?s1 = (Inr (Some ?obj), ?s2)"
    by (simp add: cl store_client_def store_DeleteByIdentity_def)
  note upd = Update_identity_change [OF chg cr del]
  show "fst (resourceCustomObjectUpdate m d w) = ReturnNil"
    using upd by simp
  show "rd_id (fst (snd (resourceCustomObjectUpdate m d w))) = remote_id (created (remote w))"
    using upd by (simp add: rd_defs)
  have "objects ?s2 = objects (remote w)"
    using free by (auto simp add: fun_eq_iff)
  then show "objects (remote (snd (snd (resourceCustomObjectUpdate m d w)))) = objects (remote w)"
    using upd by simp
qed

text \<open>
  C2. After the rename of the key from \<open>a\<close> to \<open>b\<close> under the container \<open>c1\<close> has returned
  nil, with a delete call that succeeded, the store holds no object at \<open>(c1, b)\<close>; the
  object at \<open>(c1, a)\<close> is still there.
\<close>

theorem Update_rename_leaves_no_object_at_the_new_identity:
  "fst (resourceCustomObjectUpdate example_provider resource_a_to_b world_a) = ReturnNil \<and>
   rd_id (fst (snd (resourceCustomObjectUpdate example_provider resource_a_to_b world_a))) =
     remote_id 1 \<and>
   objects (remote (snd (snd (resourceCustomObjectUpdate example_provider resource_a_to_b world_a))))
     (''c1'', ''b'') = None \<and>
   objects (remote (snd (snd (resourceCustomObjectUpdate example_provider resource_a_to_b world_a))))
     (''c1'', ''a'') = Some object_a"
  by (simp add: example_defs store_defs rd_defs world_defs HasChange_container_def HasChange_key_def
        resourceCustomObjectUpdate_def decodeCustomObjectValue_def json_Unmarshal_def Let_def)

end
